theory Spec2Isabelle
  imports Complex_Main
begin

section \<open>Greenhouse simulation: data model\<close>

text \<open>
  The simulation engine lives in \<^verbatim>\<open>SensorSimulator.ts\<close> (environment and table growth
  engines, simulated clock) and \<^verbatim>\<open>GreenhouseManager.ts\<close> (registry, actuator setters,
  speed control). TypeScript values of type \<^verbatim>\<open>number\<close> that carry measurements are
  modelled as exact reals: rounding, NaN and the infinities of IEEE doubles are outside
  the model. Identifiers, the day counter and the minute counter are integers.
  \<^verbatim>\<open>Math.floor\<close> and \<^verbatim>\<open>Math.ceil\<close> are the floor and ceiling of the reals,
  \<^verbatim>\<open>Math.round\<close> rounds half up.
\<close>

text \<open>
  The three interfaces are imported from \<^verbatim>\<open>types/greenhouse.types\<close>; their fields are
  read off the object literals of \<^verbatim>\<open>initializeGreenhouses\<close> and
  \<^verbatim>\<open>readEnvironmentData\<close>. The \<^verbatim>\<open>date\<close> field of an environment record is never
  read by the engine and is left out. The fields \<^verbatim>\<open>id\<close> and \<^verbatim>\<open>temperature\<close> exist
  in both a table and a greenhouse and carry a prefix here.
\<close>

record EnvironmentData =
  tavg :: real
  tmin :: real
  tmax :: real
  prcp :: real
  snow :: real
  pres :: real
  tsun :: real

record PlantTable =
  table_id :: int
  position :: string
  table_temperature :: real
  plantSize :: real
  plantCount :: real
  soilMoisture :: real
  soilFertility :: real
  artLight :: real
  water :: bool
  fertilizer :: bool
  plantedDate :: int

record GreenhouseData =
  house_id :: int
  name :: string
  lightIntensity :: real
  house_temperature :: real
  humidity :: real
  fan :: bool
  shading :: real
  tables :: "PlantTable list"

text \<open>
  The state of a \<^verbatim>\<open>SensorSimulator\<close>. The key of \<^verbatim>\<open>overFertilizerTime\<close> is the
  string \<^verbatim>\<open>`${house.id}-${table.id}`\<close>; that rendering of two integers is injective,
  so the pair of identifiers is the key here.
\<close>

record SensorSimulator =
  environmentData :: "EnvironmentData list"
  currentDay :: int
  minuteOfTheDay :: int
  ventilationStartTime :: "int \<rightharpoonup> int"
  overFertilizerTime :: "(int \<times> int) \<rightharpoonup> int"

text \<open>
  The state of a \<^verbatim>\<open>GreenhouseManager\<close>. The running timer is the interval it was
  started with (\<^verbatim>\<open>setInterval(..., this.timeStep)\<close>), \<open>None\<close> for \<^verbatim>\<open>null\<close>. The
  database service and the data-saving timer are touched by none of the methods below.
\<close>

record GreenhouseManager =
  greenhouses :: "int \<rightharpoonup> GreenhouseData"
  sensorSimulator :: SensorSimulator
  simulationInterval :: "real option"
  baseTimeStep :: real
  timeStep :: real
  simulationSpeed :: real

section \<open>Growth parameters\<close>

definition BASE_GROWTH_RATE :: real where [simp]: "BASE_GROWTH_RATE = 0.2"
definition OPTIMAL_TEMP :: real where [simp]: "OPTIMAL_TEMP = 22"
definition DEATH_TEMP :: real where [simp]: "DEATH_TEMP = 60"
definition OPTIMAL_MOISTURE_MIN :: real where [simp]: "OPTIMAL_MOISTURE_MIN = 50"
definition OPTIMAL_MOISTURE_MAX :: real where [simp]: "OPTIMAL_MOISTURE_MAX = 80"
definition MAX_HUMIDITY :: real where [simp]: "MAX_HUMIDITY = 85"
definition WATER_INCREASE_RATE :: real where [simp]: "WATER_INCREASE_RATE = 3"
definition EVAPORATION_RATE :: real where [simp]: "EVAPORATION_RATE = 0.6"
definition FERTILIZER_RATE :: real where [simp]: "FERTILIZER_RATE = 20"
definition OVER_FERTILIZER_DEATH :: int where [simp]: "OVER_FERTILIZER_DEATH = 10"
definition FERTILIZER_DECAY :: real where [simp]: "FERTILIZER_DECAY = 1"
definition LIGHT_HEAT_EFFECT :: real where [simp]: "LIGHT_HEAT_EFFECT = 3 / 500"
definition MAX_PLANT_SIZE :: real where [simp]: "MAX_PLANT_SIZE = 15"
definition VENTILATION_EXCHANGE_TIME :: real where [simp]: "VENTILATION_EXCHANGE_TIME = 30"

definition Math_round :: "real \<Rightarrow> real" where
  "Math_round x = of_int \<lfloor>x + 1 / 2\<rfloor>"

section \<open>The greenhouse environment engine\<close>

text \<open>
  \<^verbatim>\<open>updateGreenhouseEnvironment\<close> in the order of the source, one definition for each
  of its commented blocks: light from shading followed by the ventilation branch (which
  also maintains the ventilation start marker), the humidity ceiling, the two range
  clamps. It returns the simulator and the greenhouse as mutated.
\<close>

definition handleVentilation ::
  "SensorSimulator \<Rightarrow> GreenhouseData \<Rightarrow> EnvironmentData \<Rightarrow> SensorSimulator \<times> GreenhouseData" where
  "handleVentilation s greenhouse envData =
    (let baseLightIntensity = 1000;
         g1 = greenhouse\<lparr>lightIntensity :=
                Math_round (baseLightIntensity * (1 - shading greenhouse / 100))\<rparr>;
         lightHeatIncrease = lightIntensity g1 * LIGHT_HEAT_EFFECT
     in if fan g1 then
          let s1 = (case ventilationStartTime s (house_id g1) of
                      None \<Rightarrow> s\<lparr>ventilationStartTime :=
                                  (ventilationStartTime s)(house_id g1 \<mapsto> minuteOfTheDay s)\<rparr>
                    | Some _ \<Rightarrow> s);
              ventilationDuration =
                (case ventilationStartTime s1 (house_id g1) of
                   None \<Rightarrow> 0
                 | Some start \<Rightarrow> real_of_int (minuteOfTheDay s1 - start));
              g2 = (if ventilationDuration \<ge> VENTILATION_EXCHANGE_TIME then
                      let tempDiff = house_temperature g1 - tavg envData
                      in g1\<lparr>house_temperature := house_temperature g1 - tempDiff * 0.1\<rparr>
                    else g1);
              humidityTarget = 60;
              humidityDiff = humidity g2 - humidityTarget
          in (s1, g2\<lparr>humidity := humidity g2 -
                     humidityDiff * (ventilationDuration / VENTILATION_EXCHANGE_TIME) * 0.05\<rparr>)
        else
          (s\<lparr>ventilationStartTime := (ventilationStartTime s)(house_id g1 := None)\<rparr>,
           g1\<lparr>house_temperature := house_temperature g1 + lightHeatIncrease / 60\<rparr>))"

definition limitHumidity :: "GreenhouseData \<Rightarrow> GreenhouseData" where
  "limitHumidity greenhouse =
    (if humidity greenhouse > MAX_HUMIDITY then greenhouse\<lparr>humidity := MAX_HUMIDITY\<rparr>
     else greenhouse)"

definition ensureRanges :: "GreenhouseData \<Rightarrow> GreenhouseData" where
  "ensureRanges greenhouse =
    (let g1 = greenhouse\<lparr>house_temperature := max 0 (min 70 (house_temperature greenhouse))\<rparr>
     in g1\<lparr>humidity := max 0 (min 100 (humidity g1))\<rparr>)"

definition updateGreenhouseEnvironment ::
  "SensorSimulator \<Rightarrow> GreenhouseData \<Rightarrow> EnvironmentData \<Rightarrow> SensorSimulator \<times> GreenhouseData" where
  "updateGreenhouseEnvironment s greenhouse envData =
    (let (s1, g1) = handleVentilation s greenhouse envData
     in (s1, ensureRanges (limitHumidity g1)))"

section \<open>The table growth engine\<close>

definition calculateMoistureFactor :: "real \<Rightarrow> real" where
  "calculateMoistureFactor moisture =
    (if moisture \<ge> OPTIMAL_MOISTURE_MIN \<and> moisture \<le> OPTIMAL_MOISTURE_MAX then 1.0
     else if moisture < OPTIMAL_MOISTURE_MIN then moisture / OPTIMAL_MOISTURE_MIN
     else if moisture > OPTIMAL_MOISTURE_MAX then max 0 ((100 - moisture) / 20)
     else 0)"

definition calculateFertilityFactor :: "real \<Rightarrow> real" where
  "calculateFertilityFactor fertility =
    (if fertility \<ge> 60 \<and> fertility \<le> 100 then 1.0
     else if fertility < 60 then fertility / 60
     else if fertility > 100 then max 0 (1 - (fertility - 100) / 50)
     else 0)"

definition calculateLightFactor :: "real \<Rightarrow> real \<Rightarrow> real" where
  "calculateLightFactor houseLight tableLight =
    (let totalLight = houseLight + tableLight
     in if totalLight \<ge> 400 \<and> totalLight \<le> 800 then 1.0
        else if totalLight < 400 then totalLight / 400
        else max 0.5 (800 / totalLight))"

definition calculateTemperatureFactor :: "real \<Rightarrow> real" where
  "calculateTemperatureFactor temp =
    (let optimalTemp = OPTIMAL_TEMP
     in if temp < 5 then 0
        else if temp < optimalTemp then (temp - 5) / (optimalTemp - 5)
        else if temp = optimalTemp then 1.0
        else if temp \<le> 40 then 1 - (temp - optimalTemp) / (40 - optimalTemp)
        else max 0 (1 - (temp - 40) / (DEATH_TEMP - 40)))"

definition calculateMaxPlants :: "real \<Rightarrow> real" where
  "calculateMaxPlants plantSize' =
    (if plantSize' \<le> 2 then 480
     else let sizeRatio = plantSize' / MAX_PLANT_SIZE;
              maxPlants = real_of_int \<lfloor>480 / (sizeRatio * sizeRatio)\<rfloor>
          in max 24 maxPlants)"

definition replantTable :: "SensorSimulator \<Rightarrow> PlantTable \<Rightarrow> PlantTable" where
  "replantTable s table =
    table\<lparr>plantCount := 480,
          plantSize := 2,
          soilFertility := min 100 (soilFertility table + 20),
          plantedDate := currentDay s\<rparr>"

text \<open>The local constant \<^verbatim>\<open>harvestCount\<close> of \<^verbatim>\<open>harvestPlants\<close>: 95% of the plants,
  rounded down.\<close>

definition harvestCount :: "PlantTable \<Rightarrow> real" where
  "harvestCount table = real_of_int \<lfloor>plantCount table * 0.95\<rfloor>"

definition harvestPlants :: "SensorSimulator \<Rightarrow> PlantTable \<Rightarrow> PlantTable" where
  "harvestPlants s table =
    (let t1 = table\<lparr>plantCount := plantCount table - harvestCount table\<rparr>
     in if plantCount t1 < 24 then replantTable s t1 else t1)"

text \<open>The commented blocks of \<^verbatim>\<open>updateTableData\<close>, each as the mutation it performs.\<close>

definition waterManagement :: "PlantTable \<Rightarrow> GreenhouseData \<Rightarrow> PlantTable" where
  "waterManagement table house =
    (if water table then
       let t1 = table\<lparr>soilMoisture := min 100 (soilMoisture table + WATER_INCREASE_RATE)\<rparr>
       in if fertilizer t1
          then t1\<lparr>soilFertility := min 150 (soilFertility t1 + FERTILIZER_RATE)\<rparr>
          else t1
     else
       let tempFactor = max 0 ((house_temperature house - 10) / 40);
           humidityFactor = max 0 (1 - humidity house / 100);
           evaporationRate = EVAPORATION_RATE * tempFactor * humidityFactor
       in table\<lparr>soilMoisture := max 0 (soilMoisture table - evaporationRate)\<rparr>)"

definition fertilizerDecay :: "PlantTable \<Rightarrow> PlantTable" where
  "fertilizerDecay table =
    (if soilFertility table > 0
     then table\<lparr>soilFertility := max 0 (soilFertility table - FERTILIZER_DECAY)\<rparr>
     else table)"

definition growthRate :: "PlantTable \<Rightarrow> GreenhouseData \<Rightarrow> real" where
  "growthRate table house =
    (let moistureFactor = calculateMoistureFactor (soilMoisture table);
         fertilityFactor = calculateFertilityFactor (soilFertility table);
         lightFactor = calculateLightFactor (lightIntensity house) (artLight table);
         temperatureFactor = calculateTemperatureFactor (house_temperature house)
     in BASE_GROWTH_RATE * moistureFactor * fertilityFactor * lightFactor * temperatureFactor)"

definition updatePlantSize :: "PlantTable \<Rightarrow> GreenhouseData \<Rightarrow> PlantTable" where
  "updatePlantSize table house =
    (if growthRate table house > 0
     then table\<lparr>plantSize := plantSize table + growthRate table house\<rparr>
     else table)"

definition drought :: "PlantTable \<Rightarrow> PlantTable" where
  "drought table =
    (if soilMoisture table < 10 then
       let deathCount = real_of_int \<lceil>plantCount table * 0.01\<rceil>
       in table\<lparr>plantCount := max 0 (plantCount table - deathCount)\<rparr>
     else table)"

definition crowding :: "PlantTable \<Rightarrow> PlantTable" where
  "crowding table =
    (let maxPlants = calculateMaxPlants (plantSize table)
     in if plantCount table > maxPlants then table\<lparr>plantCount := maxPlants\<rparr> else table)"

text \<open>
  The part of \<^verbatim>\<open>updateTableData\<close> after the three death checks: water, decay,
  growth, drought, the low-population replant, the mirrored temperature, harvest,
  crowding.
\<close>

definition growTable :: "SensorSimulator \<Rightarrow> PlantTable \<Rightarrow> GreenhouseData \<Rightarrow> PlantTable" where
  "growTable s table house =
    (let t1 = waterManagement table house;
         t2 = fertilizerDecay t1;
         t3 = updatePlantSize t2 house;
         t4 = drought t3;
         t5 = (if plantCount t4 < 24 then replantTable s t4 else t4);
         t6 = t5\<lparr>table_temperature := house_temperature house\<rparr>;
         t7 = (if plantSize t6 \<ge> 30 \<and> soilMoisture t6 \<le> 50 then harvestPlants s t6 else t6)
     in crowding t7)"

definition updateTableData ::
  "SensorSimulator \<Rightarrow> PlantTable \<Rightarrow> GreenhouseData \<Rightarrow> SensorSimulator \<times> PlantTable" where
  "updateTableData s table house =
    (let tableKey = (house_id house, table_id table)
     in if plantCount table \<le> 0 \<or> plantSize table \<le> 0 then (s, table)
        else if house_temperature house > DEATH_TEMP
        then (s, table\<lparr>plantCount := 0, plantSize := 0\<rparr>)
        else if soilFertility table > 100 then
          let overTime = (case overFertilizerTime s tableKey of None \<Rightarrow> 0 | Some c \<Rightarrow> c) + 1;
              s1 = s\<lparr>overFertilizerTime := (overFertilizerTime s)(tableKey \<mapsto> overTime)\<rparr>
          in if overTime \<ge> OVER_FERTILIZER_DEATH
             then (s1\<lparr>overFertilizerTime := (overFertilizerTime s1)(tableKey := None)\<rparr>,
                   table\<lparr>plantCount := 0, plantSize := 0\<rparr>)
             else (s1, growTable s1 table house)
        else
          let s1 = s\<lparr>overFertilizerTime := (overFertilizerTime s)(tableKey := None)\<rparr>
          in (s1, growTable s1 table house))"

section \<open>The registry and its actuator setters\<close>

definition getTable :: "GreenhouseManager \<Rightarrow> int \<Rightarrow> int \<Rightarrow> PlantTable option" where
  "getTable m greenhouseId tableId =
    (case greenhouses m greenhouseId of
       None \<Rightarrow> None
     | Some greenhouse \<Rightarrow> find (\<lambda>table. table_id table = tableId) (tables greenhouse))"

text \<open>
  The setters assign to a field of the object that \<^verbatim>\<open>getTable\<close> returned, which is the
  first table of the greenhouse's array with that id. In the model the assignment is
  written back at that place.
\<close>

fun assignFirst :: "('a \<Rightarrow> bool) \<Rightarrow> ('a \<Rightarrow> 'a) \<Rightarrow> 'a list \<Rightarrow> 'a list" where
  "assignFirst P f [] = []"
| "assignFirst P f (x # xs) = (if P x then f x # xs else x # assignFirst P f xs)"

definition assignTable ::
  "GreenhouseManager \<Rightarrow> int \<Rightarrow> int \<Rightarrow> (PlantTable \<Rightarrow> PlantTable) \<Rightarrow> GreenhouseManager" where
  "assignTable m greenhouseId tableId f =
    (case greenhouses m greenhouseId of
       None \<Rightarrow> m
     | Some greenhouse \<Rightarrow>
         m\<lparr>greenhouses := (greenhouses m)(greenhouseId \<mapsto>
             greenhouse\<lparr>tables := assignFirst (\<lambda>table. table_id table = tableId) f (tables greenhouse)\<rparr>)\<rparr>)"

definition setTableWatering ::
  "GreenhouseManager \<Rightarrow> int \<Rightarrow> int \<Rightarrow> bool \<Rightarrow> bool \<times> GreenhouseManager" where
  "setTableWatering m greenhouseId tableId state =
    (case getTable m greenhouseId tableId of
       Some table \<Rightarrow> (True, assignTable m greenhouseId tableId (\<lambda>t. t\<lparr>water := state\<rparr>))
     | None \<Rightarrow> (False, m))"

definition setTableFertilizer ::
  "GreenhouseManager \<Rightarrow> int \<Rightarrow> int \<Rightarrow> bool \<Rightarrow> bool \<times> GreenhouseManager" where
  "setTableFertilizer m greenhouseId tableId state =
    (case getTable m greenhouseId tableId of
       Some table \<Rightarrow> (True, assignTable m greenhouseId tableId (\<lambda>t. t\<lparr>fertilizer := state\<rparr>))
     | None \<Rightarrow> (False, m))"

definition setGreenhouseFan ::
  "GreenhouseManager \<Rightarrow> int \<Rightarrow> bool \<Rightarrow> bool \<times> GreenhouseManager" where
  "setGreenhouseFan m greenhouseId state =
    (case greenhouses m greenhouseId of
       Some greenhouse \<Rightarrow>
         (True, m\<lparr>greenhouses := (greenhouses m)(greenhouseId \<mapsto> greenhouse\<lparr>fan := state\<rparr>)\<rparr>)
     | None \<Rightarrow> (False, m))"

definition setGreenhouseShading ::
  "GreenhouseManager \<Rightarrow> int \<Rightarrow> real \<Rightarrow> bool \<times> GreenhouseManager" where
  "setGreenhouseShading m greenhouseId percentage =
    (case greenhouses m greenhouseId of
       Some greenhouse \<Rightarrow>
         if percentage \<ge> 0 \<and> percentage \<le> 100
         then (True, m\<lparr>greenhouses :=
                        (greenhouses m)(greenhouseId \<mapsto> greenhouse\<lparr>shading := percentage\<rparr>)\<rparr>)
         else (False, m)
     | None \<Rightarrow> (False, m))"

definition setTableLight ::
  "GreenhouseManager \<Rightarrow> int \<Rightarrow> int \<Rightarrow> real \<Rightarrow> bool \<times> GreenhouseManager" where
  "setTableLight m greenhouseId tableId lumens =
    (case getTable m greenhouseId tableId of
       Some table \<Rightarrow>
         if lumens \<ge> 0 \<and> lumens \<le> 2000
         then (True, assignTable m greenhouseId tableId (\<lambda>t. t\<lparr>artLight := lumens\<rparr>))
         else (False, m)
     | None \<Rightarrow> (False, m))"

section \<open>Speed control\<close>

text \<open>
  \<^verbatim>\<open>setSimulationSpeed\<close>: when a timer runs it is cleared and \<^verbatim>\<open>startSimulation\<close>
  starts a new one with the new \<^verbatim>\<open>timeStep\<close>.
\<close>

definition setSimulationSpeed :: "GreenhouseManager \<Rightarrow> real \<Rightarrow> bool \<times> GreenhouseManager" where
  "setSimulationSpeed m speed =
    (if speed > 0 \<and> speed \<le> 1000 then
       let m1 = m\<lparr>simulationSpeed := speed\<rparr>;
           m2 = m1\<lparr>timeStep := max 1 (baseTimeStep m1 / speed)\<rparr>;
           m3 = (case simulationInterval m2 of
                   Some _ \<Rightarrow> m2\<lparr>simulationInterval := Some (timeStep m2)\<rparr>
                 | None \<Rightarrow> m2)
       in (True, m3)
     else (False, m))"

section \<open>Consecutive ticks of one table\<close>

text \<open>
  The table engine applied to one table tick after tick. Between two ticks the greenhouse
  changes (the environment engine runs first in every tick) and the table can be mutated
  from outside the engine (the actuator setters assign to its fields): each tick is given
  as the outside mutation that precedes it and the greenhouse it runs with. The clock and
  the counters of other tables, which the engine does not read for this table's counter,
  are left out.
\<close>

definition tableTicks ::
  "SensorSimulator \<Rightarrow> PlantTable \<Rightarrow> ((PlantTable \<Rightarrow> PlantTable) \<times> GreenhouseData) list
     \<Rightarrow> SensorSimulator \<times> PlantTable" where
  "tableTicks s table ticks =
     foldl (\<lambda>(s', t') (outside, house). updateTableData s' (outside t') house) (s, table) ticks"

text \<open>The simulator and the table after the first \<open>k\<close> ticks, and the table as tick
  \<open>k + 1\<close> finds it.\<close>

definition stateAfter ::
  "SensorSimulator \<Rightarrow> PlantTable \<Rightarrow> ((PlantTable \<Rightarrow> PlantTable) \<times> GreenhouseData) list \<Rightarrow> nat
     \<Rightarrow> SensorSimulator \<times> PlantTable" where
  "stateAfter s table ticks k = tableTicks s table (take k ticks)"

definition tableBefore ::
  "SensorSimulator \<Rightarrow> PlantTable \<Rightarrow> ((PlantTable \<Rightarrow> PlantTable) \<times> GreenhouseData) list \<Rightarrow> nat
     \<Rightarrow> PlantTable" where
  "tableBefore s table ticks k = fst (ticks ! k) (snd (stateAfter s table ticks k))"

text \<open>An outside mutation that leaves the id, the population and the size alone.\<close>

definition keepsPlants :: "(PlantTable \<Rightarrow> PlantTable) \<Rightarrow> bool" where
  "keepsPlants outside =
    (\<forall>x. table_id (outside x) = table_id x \<and> plantCount (outside x) = plantCount x \<and>
         plantSize (outside x) = plantSize x)"

section \<open>Predicates and sample states used in the statements\<close>

text \<open>The four range invariants of a table.\<close>

definition tableBounds :: "PlantTable \<Rightarrow> bool" where
  "tableBounds t =
    (0 \<le> plantCount t \<and> plantCount t \<le> 480 \<and> 0 \<le> plantSize t \<and>
     0 \<le> soilMoisture t \<and> soilMoisture t \<le> 100 \<and>
     0 \<le> soilFertility t \<and> soilFertility t \<le> 150)"

text \<open>
  The over-fertilization counter of a table as \<^verbatim>\<open>updateTableData\<close> reads it: an absent
  entry counts as 0.
\<close>

definition overFertilizedMinutes :: "SensorSimulator \<Rightarrow> int \<times> int \<Rightarrow> int" where
  "overFertilizedMinutes s tableKey =
    (case overFertilizerTime s tableKey of None \<Rightarrow> 0 | Some c \<Rightarrow> c)"

text \<open>
  The elapsed ventilation time that a fan-on tick computes: the current minute minus the
  recorded start, the start being the current minute when no marker is recorded yet.
\<close>

definition ventilationElapsed :: "SensorSimulator \<Rightarrow> GreenhouseData \<Rightarrow> int" where
  "ventilationElapsed s greenhouse =
    (case ventilationStartTime s (house_id greenhouse) of
       None \<Rightarrow> 0
     | Some start \<Rightarrow> minuteOfTheDay s - start)"

text \<open>
  What the table setters are specified to do. A table id is known in a greenhouse when
  some table of the greenhouse carries it. An assignment to the table with that id changes
  the first table of the array carrying the id, by the given field update, and nothing
  else of the manager.
\<close>

definition knownTable :: "GreenhouseManager \<Rightarrow> int \<Rightarrow> int \<Rightarrow> bool" where
  "knownTable m greenhouseId tableId =
    (\<exists>greenhouse. greenhouses m greenhouseId = Some greenhouse \<and>
       tableId \<in> table_id ` set (tables greenhouse))"

definition tableAssigned ::
  "GreenhouseManager \<Rightarrow> int \<Rightarrow> int \<Rightarrow> (PlantTable \<Rightarrow> PlantTable) \<Rightarrow> GreenhouseManager \<Rightarrow> bool" where
  "tableAssigned m greenhouseId tableId f m' =
    (\<exists>greenhouse i. greenhouses m greenhouseId = Some greenhouse \<and>
       i < length (tables greenhouse) \<and>
       table_id (tables greenhouse ! i) = tableId \<and>
       (\<forall>j<i. table_id (tables greenhouse ! j) \<noteq> tableId) \<and>
       m' = m\<lparr>greenhouses := (greenhouses m)(greenhouseId \<mapsto>
              greenhouse\<lparr>tables := (tables greenhouse)[i := f (tables greenhouse ! i)]\<rparr>)\<rparr>)"

text \<open>A simulator as constructed, a greenhouse and tables as \<^verbatim>\<open>initializeGreenhouses\<close>
  builds them, and variations of them.\<close>

definition freshSimulator :: SensorSimulator where
  "freshSimulator = \<lparr>environmentData = [], currentDay = 100, minuteOfTheDay = 0,
     ventilationStartTime = Map.empty, overFertilizerTime = Map.empty\<rparr>"

definition seedTable :: PlantTable where
  "seedTable = \<lparr>table_id = 1, position = ''G1T1'', table_temperature = 20, plantSize = 2,
     plantCount = 480, soilMoisture = 80, soilFertility = 100, artLight = 0, water = False,
     fertilizer = False, plantedDate = 100\<rparr>"

definition seedHouse :: GreenhouseData where
  "seedHouse = \<lparr>house_id = 1, name = ''G1'', lightIntensity = 500, house_temperature = 20,
     humidity = 60, fan = False, shading = 0, tables = []\<rparr>"

definition ripeTable :: PlantTable where
  "ripeTable = seedTable\<lparr>plantSize := 31, soilMoisture := 40\<rparr>"

definition deadTable :: PlantTable where
  "deadTable = seedTable\<lparr>plantCount := 0, plantSize := 0\<rparr>"

definition sparseTable :: PlantTable where
  "sparseTable = seedTable\<lparr>plantCount := 10, plantSize := 12\<rparr>"

definition hotHouse :: GreenhouseData where
  "hotHouse = seedHouse\<lparr>house_temperature := 61\<rparr>"

definition ventilatingSimulator :: SensorSimulator where
  "ventilatingSimulator =
     freshSimulator\<lparr>minuteOfTheDay := 15, ventilationStartTime := [1 \<mapsto> 0]\<rparr>"

definition humidHouse :: GreenhouseData where
  "humidHouse = seedHouse\<lparr>fan := True, humidity := 80, house_temperature := 30\<rparr>"

definition coldDay :: EnvironmentData where
  "coldDay = \<lparr>tavg = 10, tmin = 5, tmax = 15, prcp = 0, snow = 0, pres = 1013, tsun = 0\<rparr>"

definition startedManager :: GreenhouseManager where
  "startedManager = \<lparr>greenhouses = [1 \<mapsto> seedHouse\<lparr>tables := [seedTable, seedTable\<lparr>table_id := 2\<rparr>]\<rparr>],
     sensorSimulator = freshSimulator, simulationInterval = Some 100, baseTimeStep = 100,
     timeStep = 100, simulationSpeed = 1\<rparr>"

definition holdFertility :: "real \<Rightarrow> (PlantTable \<Rightarrow> PlantTable) \<times> GreenhouseData" where
  "holdFertility f = (\<lambda>x. x\<lparr>soilFertility := f\<rparr>, seedHouse)"

definition heldAt110 :: "((PlantTable \<Rightarrow> PlantTable) \<times> GreenhouseData) list" where
  "heldAt110 = replicate 10 (holdFertility 110)"

definition dropAtTick5 :: "((PlantTable \<Rightarrow> PlantTable) \<times> GreenhouseData) list" where
  "dropAtTick5 = replicate 4 (holdFertility 110) @ [holdFertility 90] @ replicate 5 (holdFertility 110)"

lemmas engine_defs = updateTableData_def growTable_def waterManagement_def fertilizerDecay_def
  updatePlantSize_def growthRate_def drought_def crowding_def harvestPlants_def harvestCount_def
  replantTable_def calculateMoistureFactor_def calculateFertilityFactor_def
  calculateLightFactor_def calculateTemperatureFactor_def calculateMaxPlants_def

lemmas environment_defs = updateGreenhouseEnvironment_def handleVentilation_def
  limitHumidity_def ensureRanges_def Math_round_def

lemmas sample_defs = freshSimulator_def seedTable_def seedHouse_def ripeTable_def deadTable_def
  sparseTable_def hotHouse_def ventilatingSimulator_def humidHouse_def coldDay_def
  holdFertility_def heldAt110_def dropAtTick5_def

section \<open>What each block of the table engine leaves alone\<close>

lemma waterManagement_frame [simp]:
  "plantCount (waterManagement t h) = plantCount t"
  "plantSize (waterManagement t h) = plantSize t"
  "plantedDate (waterManagement t h) = plantedDate t"
  "table_id (waterManagement t h) = table_id t"
  by (simp_all add: waterManagement_def Let_def)

lemma fertilizerDecay_frame [simp]:
  "plantCount (fertilizerDecay t) = plantCount t"
  "plantSize (fertilizerDecay t) = plantSize t"
  "soilMoisture (fertilizerDecay t) = soilMoisture t"
  "plantedDate (fertilizerDecay t) = plantedDate t"
  "table_id (fertilizerDecay t) = table_id t"
  by (simp_all add: fertilizerDecay_def)

lemma updatePlantSize_frame [simp]:
  "plantCount (updatePlantSize t h) = plantCount t"
  "soilMoisture (updatePlantSize t h) = soilMoisture t"
  "soilFertility (updatePlantSize t h) = soilFertility t"
  "plantedDate (updatePlantSize t h) = plantedDate t"
  "table_id (updatePlantSize t h) = table_id t"
  by (simp_all add: updatePlantSize_def)

lemma updatePlantSize_grows: "plantSize t \<le> plantSize (updatePlantSize t h)"
  by (simp add: updatePlantSize_def)

lemma drought_frame [simp]:
  "plantSize (drought t) = plantSize t"
  "soilMoisture (drought t) = soilMoisture t"
  "soilFertility (drought t) = soilFertility t"
  "plantedDate (drought t) = plantedDate t"
  "table_id (drought t) = table_id t"
  by (simp_all add: drought_def Let_def)

lemma drought_wet [simp]: "10 \<le> soilMoisture t \<Longrightarrow> drought t = t"
  by (simp add: drought_def)

lemma replantTable_frame [simp]:
  "plantCount (replantTable s t) = 480"
  "plantSize (replantTable s t) = 2"
  "plantedDate (replantTable s t) = currentDay s"
  "soilMoisture (replantTable s t) = soilMoisture t"
  "table_id (replantTable s t) = table_id t"
  by (simp_all add: replantTable_def)

lemma harvestPlants_frame [simp]:
  "soilMoisture (harvestPlants s t) = soilMoisture t"
  "table_id (harvestPlants s t) = table_id t"
  by (simp_all add: harvestPlants_def Let_def)

lemma crowding_frame [simp]:
  "plantSize (crowding t) = plantSize t"
  "soilMoisture (crowding t) = soilMoisture t"
  "soilFertility (crowding t) = soilFertility t"
  "plantedDate (crowding t) = plantedDate t"
  "table_id (crowding t) = table_id t"
  by (simp_all add: crowding_def Let_def)

lemma crowding_fits: "plantCount t \<le> calculateMaxPlants (plantSize t) \<Longrightarrow> crowding t = t"
  by (simp add: crowding_def Let_def)

lemma calculateMaxPlants_lower: "24 \<le> calculateMaxPlants x"
  by (simp add: calculateMaxPlants_def Let_def)

section \<open>Arithmetic of the blocks\<close>

lemma evaporation_range:
  assumes "T \<le> 60" "0 \<le> H"
  shows "0 \<le> EVAPORATION_RATE * max 0 ((T - 10) / 40) * max 0 (1 - H / 100)"
    and "EVAPORATION_RATE * max 0 ((T - 10) / 40) * max 0 (1 - H / 100) \<le> 3 / 4"
proof -
  define a where "a = max 0 ((T - 10) / 40)"
  define b where "b = max 0 (1 - H / 100)"
  have a: "0 \<le> a" "a \<le> 5 / 4" using assms unfolding a_def max_def by simp_all
  have b: "0 \<le> b" "b \<le> 1" using assms unfolding b_def max_def by simp_all
  have "a * b \<le> (5 / 4) * 1" using a b by (intro mult_mono) simp_all
  moreover have "0 \<le> a * b" using a b by simp
  ultimately have "0 \<le> 0.6 * a * b" "0.6 * a * b \<le> 3 / 4" by simp_all
  then show "0 \<le> EVAPORATION_RATE * max 0 ((T - 10) / 40) * max 0 (1 - H / 100)"
    and "EVAPORATION_RATE * max 0 ((T - 10) / 40) * max 0 (1 - H / 100) \<le> 3 / 4"
    unfolding a_def b_def EVAPORATION_RATE_def by blast+
qed

lemma evaporation_nonneg:
  "0 \<le> EVAPORATION_RATE * max 0 ((T - 10) / 40) * max 0 (1 - H / 100)"
  by simp

lemma drought_plantCount:
  assumes "0 \<le> plantCount t"
  shows "0 \<le> plantCount (drought t)" and "plantCount (drought t) \<le> plantCount t"
proof -
  have "0 \<le> plantCount t * 0.01" using assms by simp
  then have "(0::int) \<le> \<lceil>plantCount t * 0.01\<rceil>" by (simp only: zero_le_ceiling)
  then have d: "0 \<le> real_of_int \<lceil>plantCount t * 0.01\<rceil>" by linarith
  show "0 \<le> plantCount (drought t)" using assms by (simp add: drought_def Let_def)
  show "plantCount (drought t) \<le> plantCount t"
    unfolding drought_def Let_def using d assms by (simp del: of_int_add)
qed

lemma harvestCount_range:
  assumes "0 \<le> plantCount t"
  shows "0 \<le> harvestCount t" and "harvestCount t \<le> plantCount t * 0.95"
    and "harvestCount t \<le> plantCount t"
proof -
  have "0 \<le> plantCount t * 0.95" using assms by simp
  then show "0 \<le> harvestCount t" by (simp add: harvestCount_def)
  show le: "harvestCount t \<le> plantCount t * 0.95"
    unfolding harvestCount_def by (rule of_int_floor_le)
  have "plantCount t * 0.95 \<le> plantCount t" using assms by simp
  with le show "harvestCount t \<le> plantCount t" by linarith
qed

lemma capacity_small_plants:
  assumes le: "x \<le> 15"
  shows "480 \<le> calculateMaxPlants x"
proof (cases "x \<le> 2")
  case True
  then show ?thesis by (simp add: calculateMaxPlants_def)
next
  case False
  define r where "r = x / 15"
  from False le have r: "0 < r" "r \<le> 1" by (simp_all add: r_def)
  then have "r * r \<le> 1 * 1" by (intro mult_mono) simp_all
  moreover have "0 < r * r" using r by simp
  ultimately have "480 \<le> 480 / (r * r)"
    by (simp add: le_divide_eq)
  then have "(480::int) \<le> \<lfloor>480 / (r * r)\<rfloor>" by (simp add: le_floor_iff)
  then have "(480::real) \<le> real_of_int \<lfloor>480 / (r * r)\<rfloor>" by linarith
  with False show ?thesis unfolding calculateMaxPlants_def Let_def r_def by simp
qed

section \<open>The range invariants, block by block\<close>

lemma waterManagement_bounds: "tableBounds t \<Longrightarrow> tableBounds (waterManagement t h)"
  using evaporation_nonneg [of "house_temperature h" "humidity h"]
  by (simp add: waterManagement_def tableBounds_def Let_def del: EVAPORATION_RATE_def)

lemma fertilizerDecay_bounds: "tableBounds t \<Longrightarrow> tableBounds (fertilizerDecay t)"
  by (simp add: fertilizerDecay_def tableBounds_def)

lemma updatePlantSize_bounds: "tableBounds t \<Longrightarrow> tableBounds (updatePlantSize t h)"
  by (simp add: updatePlantSize_def tableBounds_def)

lemma drought_bounds: "tableBounds t \<Longrightarrow> tableBounds (drought t)"
  using drought_plantCount [of t]
  by (simp add: tableBounds_def)

lemma replantTable_bounds: "tableBounds t \<Longrightarrow> tableBounds (replantTable s t)"
  by (simp add: replantTable_def tableBounds_def)

lemma harvestPlants_bounds: "tableBounds t \<Longrightarrow> tableBounds (harvestPlants s t)"
  using harvestCount_range [of t]
  by (auto simp add: harvestPlants_def Let_def replantTable_def tableBounds_def)

lemma crowding_bounds: "tableBounds t \<Longrightarrow> tableBounds (crowding t)"
  using calculateMaxPlants_lower [of "plantSize t"]
  by (simp add: crowding_def Let_def tableBounds_def)

lemma growTable_bounds:
  assumes b: "tableBounds t"
  shows "tableBounds (growTable s t h)"
proof -
  let ?t4 = "drought (updatePlantSize (fertilizerDecay (waterManagement t h)) h)"
  have b4: "tableBounds ?t4"
    by (intro drought_bounds updatePlantSize_bounds fertilizerDecay_bounds
        waterManagement_bounds b)
  let ?t5 = "if plantCount ?t4 < 24 then replantTable s ?t4 else ?t4"
  have b5: "tableBounds ?t5" using b4 by (simp add: replantTable_bounds)
  let ?t6 = "?t5\<lparr>table_temperature := house_temperature h\<rparr>"
  have b6: "tableBounds ?t6" using b5 by (simp add: tableBounds_def)
  let ?t7 = "if plantSize ?t6 \<ge> 30 \<and> soilMoisture ?t6 \<le> 50 then harvestPlants s ?t6 else ?t6"
  have b7: "tableBounds ?t7" using b6 harvestPlants_bounds [of ?t6 s] by presburger
  have "growTable s t h = crowding ?t7" by (simp add: growTable_def Let_def)
  then show ?thesis using crowding_bounds [OF b7] by simp
qed

lemma updateTableData_bounds:
  assumes b: "tableBounds t"
  shows "tableBounds (snd (updateTableData s t h))"
proof -
  have dead: "tableBounds (t\<lparr>plantCount := 0, plantSize := 0\<rparr>)"
    using b by (simp add: tableBounds_def)
  show ?thesis
    unfolding updateTableData_def Let_def
    using b dead growTable_bounds [OF b] by (simp del: DEATH_TEMP_def)
qed

section \<open>One tick of a live table\<close>

lemma updateTableData_alive:
  assumes "0 < plantCount t" "0 < plantSize t" "house_temperature h \<le> 60"
    and "soilFertility t \<le> 100 \<or> overFertilizedMinutes s (house_id h, table_id t) < 9"
  shows "snd (updateTableData s t h) = growTable (fst (updateTableData s t h)) t h"
    and "currentDay (fst (updateTableData s t h)) = currentDay s"
  using assms
  by (auto simp add: updateTableData_def Let_def overFertilizedMinutes_def split: option.splits)

lemma growTable_harvest:
  assumes t: "plantSize t = 31" "soilMoisture t = 40" "plantCount t = 480" "\<not> water t"
    and h: "house_temperature h \<le> 60" "0 \<le> humidity h"
  shows "plantCount (growTable s t h) = 24" and "31 \<le> plantSize (growTable s t h)"
    and "plantedDate (growTable s t h) = plantedDate t"
proof -
  let ?t1 = "waterManagement t h"
  let ?t3 = "updatePlantSize (fertilizerDecay ?t1) h"
  have m1: "39 \<le> soilMoisture ?t1" "soilMoisture ?t1 \<le> 40"
    using evaporation_range [OF h] t
    by (simp_all add: waterManagement_def Let_def del: EVAPORATION_RATE_def)
  have m3: "10 \<le> soilMoisture ?t3" "soilMoisture ?t3 \<le> 50" using m1 by simp_all
  have c3: "plantCount ?t3 = 480" using t by simp
  have s3: "31 \<le> plantSize ?t3"
    using updatePlantSize_grows [of "fertilizerDecay ?t1" h] t by simp
  let ?t6 = "?t3\<lparr>table_temperature := house_temperature h\<rparr>"
  have hv: "harvestPlants s ?t6 = ?t6\<lparr>plantCount := 24\<rparr>"
    using c3 by (simp add: harvestPlants_def harvestCount_def Let_def)
  have g: "growTable s t h = crowding (?t6\<lparr>plantCount := 24\<rparr>)"
    unfolding growTable_def Let_def using m3 c3 s3 hv by simp
  have "crowding (?t6\<lparr>plantCount := 24\<rparr>) = ?t6\<lparr>plantCount := 24\<rparr>"
    using calculateMaxPlants_lower [of "plantSize ?t3"] by (intro crowding_fits) simp
  with g have g': "growTable s t h = ?t6\<lparr>plantCount := 24\<rparr>" by simp
  show "plantCount (growTable s t h) = 24" by (simp add: g')
  show "31 \<le> plantSize (growTable s t h)" using s3 by (simp add: g')
  show "plantedDate (growTable s t h) = plantedDate t" by (simp add: g')
qed

lemma growTable_replant:
  assumes "0 \<le> plantCount t" "plantCount t < 24"
  shows "plantCount (growTable s t h) = 480" and "plantSize (growTable s t h) = 2"
    and "plantedDate (growTable s t h) = currentDay s"
proof -
  let ?t4 = "drought (updatePlantSize (fertilizerDecay (waterManagement t h)) h)"
  have "plantCount ?t4 \<le> plantCount (updatePlantSize (fertilizerDecay (waterManagement t h)) h)"
    using assms by (intro drought_plantCount) simp
  then have lt: "plantCount ?t4 < 24" using assms by simp
  let ?t6 = "(replantTable s ?t4)\<lparr>table_temperature := house_temperature h\<rparr>"
  have g: "growTable s t h = crowding ?t6"
    unfolding growTable_def Let_def using lt by simp
  have "crowding ?t6 = ?t6"
    by (intro crowding_fits) (simp add: calculateMaxPlants_def)
  with g have g': "growTable s t h = ?t6" by simp
  show "plantCount (growTable s t h) = 480" and "plantSize (growTable s t h) = 2"
    and "plantedDate (growTable s t h) = currentDay s"
    by (simp_all add: g')
qed

section \<open>The setters write to the first table with the id\<close>

lemma assignFirst_find_None: "find P xs = None \<Longrightarrow> assignFirst P f xs = xs"
  by (induction xs) (auto split: if_splits)

lemma assignFirst_find_Some:
  "find P xs = Some x \<Longrightarrow>
     \<exists>i<length xs. xs ! i = x \<and> P x \<and> (\<forall>j<i. \<not> P (xs ! j)) \<and> assignFirst P f xs = xs[i := f x]"
proof (induction xs)
  case Nil
  then show ?case by simp
next
  case (Cons a xs)
  show ?case
  proof (cases "P a")
    case True
    with Cons.prems have "a = x" by simp
    with True have "(a # xs) ! 0 = x \<and> P x \<and> (\<forall>j<0. \<not> P ((a # xs) ! j)) \<and>
        assignFirst P f (a # xs) = (a # xs)[0 := f x]"
      by simp
    then show ?thesis by (intro exI [of _ 0]) simp
  next
    case False
    with Cons.prems have "find P xs = Some x" by simp
    from Cons.IH [OF this] obtain i where i: "i < length xs" "xs ! i = x" "P x"
      "\<forall>j<i. \<not> P (xs ! j)" "assignFirst P f xs = xs[i := f x]"
      by blast
    have "\<forall>j<Suc i. \<not> P ((a # xs) ! j)"
    proof (intro allI impI)
      fix j assume "j < Suc i"
      then show "\<not> P ((a # xs) ! j)" using False i(4) by (cases j) simp_all
    qed
    with i False have "Suc i < length (a # xs) \<and> (a # xs) ! Suc i = x \<and> P x \<and>
        (\<forall>j<Suc i. \<not> P ((a # xs) ! j)) \<and>
        assignFirst P f (a # xs) = (a # xs)[Suc i := f x]"
      by simp
    then show ?thesis by blast
  qed
qed

lemma getTable_None_iff: "getTable m g t = None \<longleftrightarrow> \<not> knownTable m g t"
  by (auto simp add: getTable_def knownTable_def find_None_iff split: option.splits)

lemma assignTable_known:
  assumes "knownTable m g t"
  shows "tableAssigned m g t f (assignTable m g t f)"
proof -
  from assms obtain gh where gh: "greenhouses m g = Some gh" "t \<in> table_id ` set (tables gh)"
    by (auto simp add: knownTable_def)
  then have "find (\<lambda>table. table_id table = t) (tables gh) \<noteq> None"
    by (auto simp add: find_None_iff)
  then obtain x where "find (\<lambda>table. table_id table = t) (tables gh) = Some x" by blast
  from assignFirst_find_Some [OF this, of f]
  obtain i where i: "i < length (tables gh)" "tables gh ! i = x" "table_id x = t"
    "\<forall>j<i. table_id (tables gh ! j) \<noteq> t"
    "assignFirst (\<lambda>table. table_id table = t) f (tables gh) = (tables gh)[i := f x]"
    by blast
  show ?thesis
    unfolding tableAssigned_def assignTable_def
    using gh(1) i by (intro exI [of _ gh] exI [of _ i]) simp
qed

lemma table_setter_known:
  assumes "knownTable m g t"
  shows "\<exists>table. getTable m g t = Some table"
  using assms getTable_None_iff [of m g t] by (cases "getTable m g t") simp_all

lemma setTableWatering_spec:
  "(fst (setTableWatering m g t b) \<longleftrightarrow> knownTable m g t) \<and>
   (\<not> knownTable m g t \<longrightarrow> snd (setTableWatering m g t b) = m) \<and>
   (knownTable m g t \<longrightarrow>
      tableAssigned m g t (\<lambda>x. x\<lparr>water := b\<rparr>) (snd (setTableWatering m g t b)))"
proof (cases "knownTable m g t")
  case True
  then obtain table where "getTable m g t = Some table" using table_setter_known by blast
  then show ?thesis using True assignTable_known [OF True]
    by (simp add: setTableWatering_def)
next
  case False
  then have "getTable m g t = None" by (simp add: getTable_None_iff)
  then show ?thesis using False by (simp add: setTableWatering_def)
qed

lemma setTableFertilizer_spec:
  "(fst (setTableFertilizer m g t b) \<longleftrightarrow> knownTable m g t) \<and>
   (\<not> knownTable m g t \<longrightarrow> snd (setTableFertilizer m g t b) = m) \<and>
   (knownTable m g t \<longrightarrow>
      tableAssigned m g t (\<lambda>x. x\<lparr>fertilizer := b\<rparr>) (snd (setTableFertilizer m g t b)))"
proof (cases "knownTable m g t")
  case True
  then obtain table where "getTable m g t = Some table" using table_setter_known by blast
  then show ?thesis using True assignTable_known [OF True]
    by (simp add: setTableFertilizer_def)
next
  case False
  then have "getTable m g t = None" by (simp add: getTable_None_iff)
  then show ?thesis using False by (simp add: setTableFertilizer_def)
qed

lemma setTableLight_spec:
  "(fst (setTableLight m g t l) \<longleftrightarrow> knownTable m g t \<and> 0 \<le> l \<and> l \<le> 2000) \<and>
   (\<not> (knownTable m g t \<and> 0 \<le> l \<and> l \<le> 2000) \<longrightarrow> snd (setTableLight m g t l) = m) \<and>
   (knownTable m g t \<and> 0 \<le> l \<and> l \<le> 2000 \<longrightarrow>
      tableAssigned m g t (\<lambda>x. x\<lparr>artLight := l\<rparr>) (snd (setTableLight m g t l)))"
proof (cases "knownTable m g t")
  case True
  then obtain table where "getTable m g t = Some table" using table_setter_known by blast
  then show ?thesis using True assignTable_known [OF True]
    by (simp add: setTableLight_def)
next
  case False
  then have "getTable m g t = None" by (simp add: getTable_None_iff)
  then show ?thesis using False by (simp add: setTableLight_def)
qed

lemma setGreenhouseFan_spec:
  "(fst (setGreenhouseFan m g b) \<longleftrightarrow> greenhouses m g \<noteq> None) \<and>
   (greenhouses m g = None \<longrightarrow> snd (setGreenhouseFan m g b) = m) \<and>
   (\<forall>greenhouse. greenhouses m g = Some greenhouse \<longrightarrow>
      snd (setGreenhouseFan m g b) =
        m\<lparr>greenhouses := (greenhouses m)(g \<mapsto> greenhouse\<lparr>fan := b\<rparr>)\<rparr>)"
  by (simp add: setGreenhouseFan_def split: option.splits)

lemma setGreenhouseShading_spec:
  "(fst (setGreenhouseShading m g p) \<longleftrightarrow> greenhouses m g \<noteq> None \<and> 0 \<le> p \<and> p \<le> 100) \<and>
   (\<not> (greenhouses m g \<noteq> None \<and> 0 \<le> p \<and> p \<le> 100) \<longrightarrow> snd (setGreenhouseShading m g p) = m) \<and>
   (\<forall>greenhouse. greenhouses m g = Some greenhouse \<and> 0 \<le> p \<and> p \<le> 100 \<longrightarrow>
      snd (setGreenhouseShading m g p) =
        m\<lparr>greenhouses := (greenhouses m)(g \<mapsto> greenhouse\<lparr>shading := p\<rparr>)\<rparr>)"
  by (simp add: setGreenhouseShading_def split: option.splits)

section \<open>Ticks of a live table and the over-fertilization counter\<close>

lemma harvestPlants_alive:
  assumes "0 < plantSize t"
  shows "24 \<le> plantCount (harvestPlants s t) \<and> 0 < plantSize (harvestPlants s t)"
  using assms by (simp add: harvestPlants_def Let_def)

lemma crowding_alive:
  assumes "24 \<le> plantCount t"
  shows "24 \<le> plantCount (crowding t)"
  using assms calculateMaxPlants_lower [of "plantSize t"] by (simp add: crowding_def Let_def)

lemma growTable_alive:
  assumes "0 < plantSize t"
  shows "24 \<le> plantCount (growTable s t h)" and "0 < plantSize (growTable s t h)"
    and "table_id (growTable s t h) = table_id t"
proof -
  let ?t4 = "drought (updatePlantSize (fertilizerDecay (waterManagement t h)) h)"
  have s4: "0 < plantSize ?t4"
    using assms updatePlantSize_grows [of "fertilizerDecay (waterManagement t h)" h] by simp
  let ?t5 = "if plantCount ?t4 < 24 then replantTable s ?t4 else ?t4"
  let ?t6 = "?t5\<lparr>table_temperature := house_temperature h\<rparr>"
  have a6: "24 \<le> plantCount ?t6" "0 < plantSize ?t6" "table_id ?t6 = table_id t"
    using s4 by simp_all
  let ?t7 = "if plantSize ?t6 \<ge> 30 \<and> soilMoisture ?t6 \<le> 50 then harvestPlants s ?t6 else ?t6"
  have a7: "24 \<le> plantCount ?t7" "0 < plantSize ?t7" "table_id ?t7 = table_id t"
    using a6 harvestPlants_alive [OF a6(2), of s] by (simp_all del: harvestPlants_frame add: harvestPlants_frame(2))
  have g: "growTable s t h = crowding ?t7" by (simp add: growTable_def Let_def)
  show "24 \<le> plantCount (growTable s t h)" unfolding g using a7(1) by (rule crowding_alive)
  show "0 < plantSize (growTable s t h)" unfolding g using a7(2) by simp
  show "table_id (growTable s t h) = table_id t" unfolding g using a7(3) by simp
qed

lemma tick_counts_over_fertilized:
  assumes "0 < plantCount t" "0 < plantSize t" "house_temperature h \<le> 60"
    and "100 < soilFertility t"
    and "overFertilizedMinutes s (house_id h, table_id t) + 1 < 10"
  shows "overFertilizerTime (fst (updateTableData s t h)) (house_id h, table_id t) =
           Some (overFertilizedMinutes s (house_id h, table_id t) + 1)"
    and "snd (updateTableData s t h) = growTable (fst (updateTableData s t h)) t h"
  using assms
  by (simp_all add: updateTableData_def Let_def overFertilizedMinutes_def split: option.splits)

lemma tick_kills_over_fertilized:
  assumes "0 < plantCount t" "0 < plantSize t" "house_temperature h \<le> 60"
    and "100 < soilFertility t"
    and "10 \<le> overFertilizedMinutes s (house_id h, table_id t) + 1"
  shows "overFertilizerTime (fst (updateTableData s t h)) (house_id h, table_id t) = None"
    and "plantCount (snd (updateTableData s t h)) = 0"
    and "plantSize (snd (updateTableData s t h)) = 0"
  using assms
  by (simp_all add: updateTableData_def Let_def overFertilizedMinutes_def split: option.splits)

lemma tick_resets_counter:
  assumes "0 < plantCount t" "0 < plantSize t" "house_temperature h \<le> 60"
    and "soilFertility t \<le> 100"
  shows "overFertilizerTime (fst (updateTableData s t h)) (house_id h, table_id t) = None"
    and "snd (updateTableData s t h) = growTable (fst (updateTableData s t h)) t h"
  using assms
  by (simp_all add: updateTableData_def Let_def)

lemma stateAfter_0 [simp]: "stateAfter s t ticks 0 = (s, t)"
  by (simp add: stateAfter_def tableTicks_def)

lemma stateAfter_Suc:
  assumes "k < length ticks"
  shows "stateAfter s t ticks (Suc k) =
    updateTableData (fst (stateAfter s t ticks k)) (tableBefore s t ticks k) (snd (ticks ! k))"
  using assms
  by (simp add: stateAfter_def tableBefore_def tableTicks_def take_Suc_conv_app_nth
      split: prod.splits)

text \<open>
  The invariant of up to nine ticks from a fresh counter: the table is alive, keeps its
  id, and the counter is the number of ticks so far exactly when every one of them
  started over-fertilized.
\<close>

lemma over_fertilization_invariant:
  assumes live: "0 < plantCount t" "0 < plantSize t"
    and fresh: "overFertilizerTime s (gid, table_id t) = None"
    and len: "length ticks = 10"
    and houses: "\<forall>x\<in>set ticks. keepsPlants (fst x) \<and> house_id (snd x) = gid \<and>
                   house_temperature (snd x) \<le> 60"
    and k: "k \<le> 9"
  shows "0 < plantCount (tableBefore s t ticks k) \<and>
         0 < plantSize (tableBefore s t ticks k) \<and>
         table_id (tableBefore s t ticks k) = table_id t \<and>
         overFertilizedMinutes (fst (stateAfter s t ticks k)) (gid, table_id t) \<le> int k \<and>
         (overFertilizedMinutes (fst (stateAfter s t ticks k)) (gid, table_id t) = int k \<longleftrightarrow>
            (\<forall>i<k. 100 < soilFertility (tableBefore s t ticks i)))"
  using k
proof (induction k)
  case 0
  from len houses have "keepsPlants (fst (ticks ! 0))" by (simp add: nth_mem)
  then show ?case using live fresh
    by (simp add: overFertilizedMinutes_def tableBefore_def keepsPlants_def)
next
  case (Suc k)
  let ?S = "fst (stateAfter s t ticks k)" and ?T = "tableBefore s t ticks k"
  let ?h = "snd (ticks ! k)"
  from Suc.prems have kl: "k < length ticks" "k \<le> 9" "Suc k < length ticks"
    using len by simp_all
  from Suc.IH [OF kl(2)] have
    alive: "0 < plantCount ?T" "0 < plantSize ?T" and
    tid: "table_id ?T = table_id t" and
    cle: "overFertilizedMinutes ?S (gid, table_id t) \<le> int k" and
    ceq: "overFertilizedMinutes ?S (gid, table_id t) = int k \<longleftrightarrow>
            (\<forall>i<k. 100 < soilFertility (tableBefore s t ticks i))"
    by simp_all
  from kl(1) houses have h: "house_id ?h = gid" "house_temperature ?h \<le> 60"
    by (simp_all add: nth_mem)
  from kl(3) houses have "keepsPlants (fst (ticks ! Suc k))" by (simp add: nth_mem)
  then have keeps: "table_id (tableBefore s t ticks (Suc k)) = table_id (snd (stateAfter s t ticks (Suc k)))"
    "plantCount (tableBefore s t ticks (Suc k)) = plantCount (snd (stateAfter s t ticks (Suc k)))"
    "plantSize (tableBefore s t ticks (Suc k)) = plantSize (snd (stateAfter s t ticks (Suc k)))"
    by (simp_all add: tableBefore_def keepsPlants_def)
  have key: "(house_id ?h, table_id ?T) = (gid, table_id t)" using h(1) tid by simp
  have step: "stateAfter s t ticks (Suc k) = updateTableData ?S ?T ?h"
    using kl(1) by (rule stateAfter_Suc)
  show ?case
  proof (cases "100 < soilFertility ?T")
    case True
    have small: "overFertilizedMinutes ?S (house_id ?h, table_id ?T) + 1 < 10"
      using cle Suc.prems by (simp add: key)
    note tick = tick_counts_over_fertilized [OF alive h(2) True small]
    have grown: "snd (stateAfter s t ticks (Suc k)) = growTable (fst (updateTableData ?S ?T ?h)) ?T ?h"
      using tick(2) by (simp add: step)
    have c': "overFertilizedMinutes (fst (stateAfter s t ticks (Suc k))) (gid, table_id t) =
        overFertilizedMinutes ?S (gid, table_id t) + 1"
      using tick(1) by (simp add: step key overFertilizedMinutes_def)
    have "(\<forall>i<Suc k. 100 < soilFertility (tableBefore s t ticks i)) \<longleftrightarrow>
        (\<forall>i<k. 100 < soilFertility (tableBefore s t ticks i))"
      using True by (simp add: All_less_Suc)
    with ceq cle c' growTable_alive [OF alive(2), of "fst (updateTableData ?S ?T ?h)" ?h] tid
    show ?thesis by (simp add: keeps grown)
  next
    case False
    then have low: "soilFertility ?T \<le> 100" by simp
    note tick = tick_resets_counter [OF alive h(2) low]
    have grown: "snd (stateAfter s t ticks (Suc k)) = growTable (fst (updateTableData ?S ?T ?h)) ?T ?h"
      using tick(2) by (simp add: step)
    have c': "overFertilizedMinutes (fst (stateAfter s t ticks (Suc k))) (gid, table_id t) = 0"
      using tick(1) by (simp add: step key overFertilizedMinutes_def)
    have "\<not> (\<forall>i<Suc k. 100 < soilFertility (tableBefore s t ticks i))"
      using False by (auto simp add: All_less_Suc)
    with c' growTable_alive [OF alive(2), of "fst (updateTableData ?S ?T ?h)" ?h] tid
    show ?thesis by (simp add: keeps grown)
  qed
qed

lemma drop_clears_counter:
  assumes live: "0 < plantCount t" "0 < plantSize t"
    and fresh: "overFertilizerTime s (gid, table_id t) = None"
    and len: "length ticks = 10"
    and houses: "\<forall>x\<in>set ticks. keepsPlants (fst x) \<and> house_id (snd x) = gid \<and>
                   house_temperature (snd x) \<le> 60"
    and j: "j < 10" and low: "soilFertility (tableBefore s t ticks j) \<le> 100"
  shows "overFertilizerTime (fst (stateAfter s t ticks (Suc j))) (gid, table_id t) = None"
proof -
  let ?S = "fst (stateAfter s t ticks j)" and ?T = "tableBefore s t ticks j"
  let ?h = "snd (ticks ! j)"
  from j have j9: "j \<le> 9" by simp
  from over_fertilization_invariant [OF live fresh len houses j9] have
    alive: "0 < plantCount ?T" "0 < plantSize ?T" and tid: "table_id ?T = table_id t"
    by simp_all
  from j len houses have h: "house_id ?h = gid" "house_temperature ?h \<le> 60"
    by (simp_all add: nth_mem)
  have "stateAfter s t ticks (Suc j) = updateTableData ?S ?T ?h"
    using j len by (intro stateAfter_Suc) simp
  with tick_resets_counter(1) [OF alive h(2) low] show ?thesis
    using h(1) tid by simp
qed

lemma tenth_tick:
  assumes live: "0 < plantCount t" "0 < plantSize t"
    and fresh: "overFertilizerTime s (gid, table_id t) = None"
    and len: "length ticks = 10"
    and houses: "\<forall>x\<in>set ticks. keepsPlants (fst x) \<and> house_id (snd x) = gid \<and>
                   house_temperature (snd x) \<le> 60"
  shows "(\<forall>i<10. 100 < soilFertility (tableBefore s t ticks i)) \<Longrightarrow>
           plantCount (snd (stateAfter s t ticks 10)) = 0 \<and>
           plantSize (snd (stateAfter s t ticks 10)) = 0 \<and>
           overFertilizerTime (fst (stateAfter s t ticks 10)) (gid, table_id t) = None"
    and "\<not> (\<forall>i<10. 100 < soilFertility (tableBefore s t ticks i)) \<Longrightarrow>
           0 < plantCount (snd (stateAfter s t ticks 10)) \<and>
           0 < plantSize (snd (stateAfter s t ticks 10))"
proof -
  let ?S = "fst (stateAfter s t ticks 9)" and ?T = "tableBefore s t ticks 9"
  let ?h = "snd (ticks ! 9)"
  from over_fertilization_invariant [OF live fresh len houses, of 9] have
    alive: "0 < plantCount ?T" "0 < plantSize ?T" and
    tid: "table_id ?T = table_id t" and
    cle: "overFertilizedMinutes ?S (gid, table_id t) \<le> 9" and
    ceq: "overFertilizedMinutes ?S (gid, table_id t) = 9 \<longleftrightarrow>
            (\<forall>i<9. 100 < soilFertility (tableBefore s t ticks i))"
    by simp_all
  from len houses have h: "house_id ?h = gid" "house_temperature ?h \<le> 60"
    by (simp_all add: nth_mem)
  have key: "(house_id ?h, table_id ?T) = (gid, table_id t)" using h(1) tid by simp
  have "stateAfter s t ticks (Suc 9) = updateTableData ?S ?T ?h"
    using len by (intro stateAfter_Suc) simp
  then have step: "stateAfter s t ticks 10 = updateTableData ?S ?T ?h" by simp
  have split10: "(\<forall>i<10. 100 < soilFertility (tableBefore s t ticks i)) \<longleftrightarrow>
      100 < soilFertility ?T \<and> (\<forall>i<9. 100 < soilFertility (tableBefore s t ticks i))"
    using All_less_Suc [of 9 "\<lambda>i. 100 < soilFertility (tableBefore s t ticks i)"] by simp
  {
    assume "\<forall>i<10. 100 < soilFertility (tableBefore s t ticks i)"
    with split10 ceq have over: "100 < soilFertility ?T"
      and full: "10 \<le> overFertilizedMinutes ?S (house_id ?h, table_id ?T) + 1"
      by (simp_all add: key)
    from tick_kills_over_fertilized [OF alive h(2) over full]
    show "plantCount (snd (stateAfter s t ticks 10)) = 0 \<and>
           plantSize (snd (stateAfter s t ticks 10)) = 0 \<and>
           overFertilizerTime (fst (stateAfter s t ticks 10)) (gid, table_id t) = None"
      by (simp add: step key)
  }
  {
    assume not_all: "\<not> (\<forall>i<10. 100 < soilFertility (tableBefore s t ticks i))"
    have "snd (stateAfter s t ticks 10) = growTable (fst (updateTableData ?S ?T ?h)) ?T ?h"
    proof (cases "100 < soilFertility ?T")
      case True
      with not_all split10 ceq
      have "overFertilizedMinutes ?S (gid, table_id t) \<noteq> 9" by blast
      with cle have "overFertilizedMinutes ?S (gid, table_id t) + 1 < 10" by linarith
      then have "overFertilizedMinutes ?S (house_id ?h, table_id ?T) + 1 < 10"
        by (simp only: key)
      from tick_counts_over_fertilized(2) [OF alive h(2) True this]
      show ?thesis by (simp add: step)
    next
      case False
      then have "soilFertility ?T \<le> 100" by simp
      from tick_resets_counter(2) [OF alive h(2) this]
      show ?thesis by (simp add: step)
    qed
    with growTable_alive [OF alive(2), of "fst (updateTableData ?S ?T ?h)" ?h]
    show "0 < plantCount (snd (stateAfter s t ticks 10)) \<and>
           0 < plantSize (snd (stateAfter s t ticks 10))"
      by simp
  }
qed

lemma alive_after:
  assumes live: "0 < plantCount t" "0 < plantSize t"
    and fresh: "overFertilizerTime s (gid, table_id t) = None"
    and len: "length ticks = 10"
    and houses: "\<forall>x\<in>set ticks. keepsPlants (fst x) \<and> house_id (snd x) = gid \<and>
                   house_temperature (snd x) \<le> 60"
    and k: "k < 10"
  shows "0 < plantCount (snd (stateAfter s t ticks k)) \<and>
         0 < plantSize (snd (stateAfter s t ticks k))"
proof -
  from k have k9: "k \<le> 9" by simp
  from k len houses have "keepsPlants (fst (ticks ! k))" by (simp add: nth_mem)
  then have "plantCount (tableBefore s t ticks k) = plantCount (snd (stateAfter s t ticks k))"
    "plantSize (tableBefore s t ticks k) = plantSize (snd (stateAfter s t ticks k))"
    by (simp_all add: tableBefore_def keepsPlants_def)
  with over_fertilization_invariant [OF live fresh len houses k9] show ?thesis by simp
qed

section \<open>The claims\<close>

text \<open>
  C1 (as amended). A live table with \<open>plantSize = 31\<close>, \<open>soilMoisture = 40\<close>,
  \<open>plantCount = 480\<close>, the water actuator off and fertility at most 100, in a greenhouse
  of at most 60 degrees with non-negative humidity: the harvest count of the table is
  \<open>floor (480 * 0.95) = 456\<close>, and one tick ends with \<open>plantCount = 24\<close>. The remainder
  24 is not below the replant threshold, so no replant happens in this tick: the plant
  size stays at 31 or above and the planted day is unchanged.
\<close>

theorem harvest_scenario_leaves_24:
  assumes "plantSize t = 31" and "soilMoisture t = 40" and "plantCount t = 480"
    and "\<not> water t" and "soilFertility t \<le> 100"
    and "house_temperature h \<le> 60" and "0 \<le> humidity h"
  shows "harvestCount t = 456 \<and>
         plantCount (snd (updateTableData s t h)) = 24 \<and>
         31 \<le> plantSize (snd (updateTableData s t h)) \<and>
         plantedDate (snd (updateTableData s t h)) = plantedDate t"
proof -
  have "harvestCount t = 456" using assms(3) by (simp add: harvestCount_def)
  moreover have "snd (updateTableData s t h) = growTable (fst (updateTableData s t h)) t h"
    using assms by (intro updateTableData_alive) simp_all
  ultimately show ?thesis
    using growTable_harvest [OF assms(1-4) assms(6,7), of "fst (updateTableData s t h)"]
    by simp
qed

theorem harvest_scenario_leaves_24_witness:
  "harvestCount ripeTable = 456 \<and>
   plantCount (snd (updateTableData freshSimulator ripeTable seedHouse)) = 24 \<and>
   31 \<le> plantSize (snd (updateTableData freshSimulator ripeTable seedHouse)) \<and>
   plantedDate (snd (updateTableData freshSimulator ripeTable seedHouse)) = 100"
  using harvest_scenario_leaves_24 [of ripeTable seedHouse freshSimulator]
  by (simp add: ripeTable_def seedTable_def seedHouse_def)

text \<open>
  C1 as stated fails: for the table of the scenario in a greenhouse at 20 degrees and 60%
  humidity the tick ends with 24 plants of more than 31 cm, not with 480 seedlings of
  2 cm.
\<close>

theorem harvest_scenario_no_replant:
  "plantSize ripeTable = 31 \<and> soilMoisture ripeTable = 40 \<and> plantCount ripeTable = 480 \<and>
   \<not> water ripeTable \<and>
   plantCount (snd (updateTableData freshSimulator ripeTable seedHouse)) = 24 \<and>
   plantCount (snd (updateTableData freshSimulator ripeTable seedHouse)) \<noteq> 480 \<and>
   plantSize (snd (updateTableData freshSimulator ripeTable seedHouse)) \<noteq> 2"
  by (simp add: engine_defs sample_defs Let_def)

text \<open>
  C2 (as amended). With the fan on, the temperature is left alone while the elapsed
  ventilation time is below 30 minutes and moves toward the day's average outside
  temperature by 10% of the gap once it is at least 30. The humidity changes on every
  fan-on tick, whatever the elapsed time, by \<open>elapsed / 30 * 0.05\<close> of its gap to 60. Both
  are then limited: humidity to at most 85, temperature to 0..70, humidity to 0..100.
\<close>

theorem fan_on_tick:
  assumes "fan g"
  shows "house_temperature (snd (updateGreenhouseEnvironment s g e)) =
           max 0 (min 70 (if 30 \<le> ventilationElapsed s g
                          then house_temperature g - (house_temperature g - tavg e) * 0.1
                          else house_temperature g)) \<and>
         humidity (snd (updateGreenhouseEnvironment s g e)) =
           max 0 (min 100 (min 85 (humidity g -
             (humidity g - 60) * (real_of_int (ventilationElapsed s g) / 30) * 0.05)))"
proof -
  have "snd (updateGreenhouseEnvironment s g e) =
      ensureRanges (limitHumidity (snd (handleVentilation s g e)))"
    by (simp add: updateGreenhouseEnvironment_def split: prod.splits)
  moreover have "house_temperature (snd (handleVentilation s g e)) =
           (if 30 \<le> ventilationElapsed s g
            then house_temperature g - (house_temperature g - tavg e) * 0.1
            else house_temperature g)"
    and "humidity (snd (handleVentilation s g e)) =
           humidity g - (humidity g - 60) * (real_of_int (ventilationElapsed s g) / 30) * 0.05"
    using assms
    by (simp_all add: handleVentilation_def ventilationElapsed_def Let_def split: option.splits)
  ultimately show ?thesis
    by (simp add: ensureRanges_def limitHumidity_def Let_def)
qed

theorem fan_on_tick_witness:
  "fan humidHouse \<and>
   house_temperature (snd (updateGreenhouseEnvironment ventilatingSimulator humidHouse coldDay)) = 30 \<and>
   humidity (snd (updateGreenhouseEnvironment ventilatingSimulator humidHouse coldDay)) = 79.5 \<and>
   house_temperature (snd (updateGreenhouseEnvironment
     (ventilatingSimulator\<lparr>minuteOfTheDay := 30\<rparr>) humidHouse coldDay)) = 28 \<and>
   humidity (snd (updateGreenhouseEnvironment
     (ventilatingSimulator\<lparr>minuteOfTheDay := 30\<rparr>) humidHouse coldDay)) = 79"
  using fan_on_tick [of humidHouse ventilatingSimulator coldDay]
    fan_on_tick [of humidHouse "ventilatingSimulator\<lparr>minuteOfTheDay := 30\<rparr>" coldDay]
  by (simp add: ventilationElapsed_def sample_defs)

text \<open>
  C2 as stated fails: 15 minutes after the fan was switched on, a tick already lowers a
  humidity of 80% to 79.5%.
\<close>

theorem humidity_corrected_before_30:
  "fan humidHouse \<and> ventilationElapsed ventilatingSimulator humidHouse = 15 \<and>
   humidity humidHouse = 80 \<and>
   humidity (snd (updateGreenhouseEnvironment ventilatingSimulator humidHouse coldDay)) = 79.5"
  by (simp add: environment_defs ventilationElapsed_def sample_defs Let_def)

text \<open>
  C3 (as amended). For a live table (\<open>0 < plantCount < 24\<close>, \<open>plantSize > 0\<close>) in a
  greenhouse of at most 60 degrees, on a tick where the over-fertilization death does not
  fire (fertility at most 100, or fewer than 9 over-fertilized minutes counted so far),
  the tick ends with \<open>plantCount = 480\<close>, \<open>plantSize = 2\<close> and \<open>plantedDate\<close> the
  current simulated day.
\<close>

theorem replant_live_table:
  assumes "0 < plantCount t" and "plantCount t < 24" and "0 < plantSize t"
    and "house_temperature h \<le> 60"
    and "soilFertility t \<le> 100 \<or> overFertilizedMinutes s (house_id h, table_id t) < 9"
  shows "plantCount (snd (updateTableData s t h)) = 480 \<and>
         plantSize (snd (updateTableData s t h)) = 2 \<and>
         plantedDate (snd (updateTableData s t h)) = currentDay s"
  using updateTableData_alive [OF assms(1,3,4,5)]
    growTable_replant [of t "fst (updateTableData s t h)" h] assms(1,2)
  by simp

theorem replant_live_table_witness:
  "plantCount (snd (updateTableData (freshSimulator\<lparr>currentDay := 123\<rparr>) sparseTable seedHouse)) = 480 \<and>
   plantSize (snd (updateTableData (freshSimulator\<lparr>currentDay := 123\<rparr>) sparseTable seedHouse)) = 2 \<and>
   plantedDate (snd (updateTableData (freshSimulator\<lparr>currentDay := 123\<rparr>) sparseTable seedHouse)) = 123"
  using replant_live_table [of sparseTable seedHouse "freshSimulator\<lparr>currentDay := 123\<rparr>"]
  by (simp add: sample_defs)

text \<open>
  C3 as stated fails: a dead table (\<open>plantCount = 0\<close>) is below 24 and stays dead, and a
  table of 10 plants in a greenhouse at 61 degrees dies instead of being replanted.
\<close>

theorem low_population_not_replanted:
  "plantCount deadTable < 24 \<and>
   plantCount (snd (updateTableData freshSimulator deadTable seedHouse)) = 0 \<and>
   plantCount sparseTable < 24 \<and>
   plantCount (snd (updateTableData freshSimulator sparseTable hotHouse)) = 0 \<and>
   plantSize (snd (updateTableData freshSimulator sparseTable hotHouse)) = 0"
  by (simp add: updateTableData_def sample_defs Let_def)

text \<open>
  C4. If a table satisfies \<open>0 \<le> plantCount \<le> 480\<close>, \<open>plantSize \<ge> 0\<close>,
  \<open>0 \<le> soilMoisture \<le> 100\<close> and \<open>0 \<le> soilFertility \<le> 150\<close>, it still does after one
  tick of the table engine, for every simulator state and every greenhouse.
\<close>

theorem table_bounds_preserved:
  assumes "0 \<le> plantCount t" and "plantCount t \<le> 480" and "0 \<le> plantSize t"
    and "0 \<le> soilMoisture t" and "soilMoisture t \<le> 100"
    and "0 \<le> soilFertility t" and "soilFertility t \<le> 150"
  shows "0 \<le> plantCount (snd (updateTableData s t h)) \<and>
         plantCount (snd (updateTableData s t h)) \<le> 480 \<and>
         0 \<le> plantSize (snd (updateTableData s t h)) \<and>
         0 \<le> soilMoisture (snd (updateTableData s t h)) \<and>
         soilMoisture (snd (updateTableData s t h)) \<le> 100 \<and>
         0 \<le> soilFertility (snd (updateTableData s t h)) \<and>
         soilFertility (snd (updateTableData s t h)) \<le> 150"
proof -
  have "tableBounds t" using assms by (simp add: tableBounds_def)
  then have "tableBounds (snd (updateTableData s t h))" by (rule updateTableData_bounds)
  then show ?thesis by (simp add: tableBounds_def)
qed

theorem table_bounds_preserved_witness:
  "0 \<le> plantCount (snd (updateTableData freshSimulator seedTable seedHouse)) \<and>
   plantCount (snd (updateTableData freshSimulator seedTable seedHouse)) \<le> 480 \<and>
   0 \<le> plantSize (snd (updateTableData freshSimulator seedTable seedHouse)) \<and>
   0 \<le> soilMoisture (snd (updateTableData freshSimulator seedTable seedHouse)) \<and>
   soilMoisture (snd (updateTableData freshSimulator seedTable seedHouse)) \<le> 100 \<and>
   0 \<le> soilFertility (snd (updateTableData freshSimulator seedTable seedHouse)) \<and>
   soilFertility (snd (updateTableData freshSimulator seedTable seedHouse)) \<le> 150"
  using table_bounds_preserved [of seedTable freshSimulator seedHouse]
  by (simp add: seedTable_def)

text \<open>
  C5. After a tick of the environment engine, for every simulator state, greenhouse and
  environment record, the temperature is in 0..70 and the humidity in 0..100 and at most
  85; the humidity ceiling of 85 is applied to the result of the ventilation block before
  the clamp to 0..100.
\<close>

theorem environment_ranges:
  "0 \<le> house_temperature (snd (updateGreenhouseEnvironment s g e)) \<and>
   house_temperature (snd (updateGreenhouseEnvironment s g e)) \<le> 70 \<and>
   0 \<le> humidity (snd (updateGreenhouseEnvironment s g e)) \<and>
   humidity (snd (updateGreenhouseEnvironment s g e)) \<le> 100 \<and>
   humidity (snd (updateGreenhouseEnvironment s g e)) \<le> 85 \<and>
   snd (updateGreenhouseEnvironment s g e) =
     ensureRanges (limitHumidity (snd (handleVentilation s g e)))"
  by (simp add: updateGreenhouseEnvironment_def ensureRanges_def limitHumidity_def Let_def
      split: prod.splits)

text \<open>
  C6. \<open>setSimulationSpeed\<close> succeeds exactly for \<open>0 < speed \<le> 1000\<close>. On success the
  tick interval is \<open>max 1 (baseTimeStep / speed)\<close> (10 for speed 10 at a base of 100),
  a running timer is restarted with it, and the simulator (with its day and minute) and
  the greenhouses are untouched. On failure the manager is unchanged.
\<close>

theorem setSimulationSpeed_spec:
  "(fst (setSimulationSpeed m speed) \<longleftrightarrow> 0 < speed \<and> speed \<le> 1000) \<and>
   (0 < speed \<and> speed \<le> 1000 \<longrightarrow>
      timeStep (snd (setSimulationSpeed m speed)) = max 1 (baseTimeStep m / speed) \<and>
      simulationSpeed (snd (setSimulationSpeed m speed)) = speed \<and>
      simulationInterval (snd (setSimulationSpeed m speed)) =
        map_option (\<lambda>_. max 1 (baseTimeStep m / speed)) (simulationInterval m) \<and>
      baseTimeStep (snd (setSimulationSpeed m speed)) = baseTimeStep m \<and>
      greenhouses (snd (setSimulationSpeed m speed)) = greenhouses m \<and>
      sensorSimulator (snd (setSimulationSpeed m speed)) = sensorSimulator m \<and>
      currentDay (sensorSimulator (snd (setSimulationSpeed m speed))) =
        currentDay (sensorSimulator m) \<and>
      minuteOfTheDay (sensorSimulator (snd (setSimulationSpeed m speed))) =
        minuteOfTheDay (sensorSimulator m)) \<and>
   (\<not> (0 < speed \<and> speed \<le> 1000) \<longrightarrow> snd (setSimulationSpeed m speed) = m) \<and>
   (baseTimeStep m = 100 \<longrightarrow> timeStep (snd (setSimulationSpeed m 10)) = 10)"
  by (simp add: setSimulationSpeed_def Let_def split: option.splits)

theorem setSimulationSpeed_spec_witness:
  "fst (setSimulationSpeed startedManager 10) \<and>
   timeStep (snd (setSimulationSpeed startedManager 10)) = 10 \<and>
   simulationInterval (snd (setSimulationSpeed startedManager 10)) = Some 10 \<and>
   currentDay (sensorSimulator (snd (setSimulationSpeed startedManager 10))) = 100 \<and>
   minuteOfTheDay (sensorSimulator (snd (setSimulationSpeed startedManager 10))) = 0 \<and>
   \<not> fst (setSimulationSpeed startedManager 0) \<and>
   snd (setSimulationSpeed startedManager 0) = startedManager \<and>
   \<not> fst (setSimulationSpeed startedManager 1001) \<and>
   snd (setSimulationSpeed startedManager 1001) = startedManager"
  using setSimulationSpeed_spec [of startedManager 10]
    setSimulationSpeed_spec [of startedManager 0]
    setSimulationSpeed_spec [of startedManager 1001]
  by (simp add: startedManager_def freshSimulator_def)

text \<open>
  C9. The crowding step (capacity from the plant size, then the clamp of the population
  to it) applied twice gives the same table, hence the same population, as applied once.
\<close>

theorem crowding_idempotent:
  "crowding (crowding t) = crowding t \<and>
   plantCount (crowding (crowding t)) = plantCount (crowding t)"
  by (simp add: crowding_def Let_def)

text \<open>
  C10. For a plant size of at most 15 cm the capacity of the table is at least 480, so
  the crowding step leaves a table of at most 480 plants as it is; when the crowding step
  lowers the population of such a table, the plant size exceeds 15 cm.
\<close>

theorem no_crowding_up_to_15cm:
  "(plantSize t \<le> 15 \<longrightarrow> 480 \<le> calculateMaxPlants (plantSize t)) \<and>
   (plantSize t \<le> 15 \<and> plantCount t \<le> 480 \<longrightarrow> crowding t = t) \<and>
   (plantCount t \<le> 480 \<and> plantCount (crowding t) < plantCount t \<longrightarrow> 15 < plantSize t)"
proof -
  have cap: "480 \<le> calculateMaxPlants (plantSize t)" if "plantSize t \<le> 15"
    using that by (rule capacity_small_plants)
  have same: "crowding t = t" if "plantSize t \<le> 15" "plantCount t \<le> 480"
    using cap [OF that(1)] that(2) by (intro crowding_fits) simp
  have "15 < plantSize t" if "plantCount t \<le> 480" "plantCount (crowding t) < plantCount t"
  proof (rule ccontr)
    assume "\<not> 15 < plantSize t"
    then have "crowding t = t" using that(1) by (intro same) simp_all
    with that(2) show False by simp
  qed
  with cap same show ?thesis by blast
qed

theorem no_crowding_up_to_15cm_witness:
  "480 \<le> calculateMaxPlants (plantSize (seedTable\<lparr>plantSize := 15\<rparr>)) \<and>
   crowding (seedTable\<lparr>plantSize := 15\<rparr>) = seedTable\<lparr>plantSize := 15\<rparr> \<and>
   plantCount (crowding (seedTable\<lparr>plantSize := 30\<rparr>)) = 120 \<and>
   15 < plantSize (seedTable\<lparr>plantSize := 30\<rparr>)"
proof -
  have small: "plantSize (seedTable\<lparr>plantSize := 15\<rparr>) \<le> 15"
    "plantCount (seedTable\<lparr>plantSize := 15\<rparr>) \<le> 480"
    by (simp_all add: seedTable_def)
  have shrunk: "plantCount (crowding (seedTable\<lparr>plantSize := 30\<rparr>)) = 120"
    "plantCount (seedTable\<lparr>plantSize := 30\<rparr>) = 480"
    by (simp_all add: crowding_def calculateMaxPlants_def seedTable_def Let_def)
  show ?thesis
    using no_crowding_up_to_15cm [of "seedTable\<lparr>plantSize := 15\<rparr>"]
      no_crowding_up_to_15cm [of "seedTable\<lparr>plantSize := 30\<rparr>"] small shrunk
    by simp
qed

text \<open>
  C7. Each of the five actuator setters returns success exactly when the greenhouse id
  (and, for a table setter, the table id in that greenhouse) is known and the value is in
  range (shading in 0..100, lumens in 0..2000). On failure the manager is returned
  unchanged. On success the manager differs from the old one in the targeted field only:
  \<open>water\<close>, \<open>fertilizer\<close> or \<open>artLight\<close> of the first table with the id, \<open>fan\<close> or
  \<open>shading\<close> of the greenhouse.
\<close>

theorem actuator_setters:
  "((fst (setTableWatering m g t b) \<longleftrightarrow> knownTable m g t) \<and>
    (\<not> knownTable m g t \<longrightarrow> snd (setTableWatering m g t b) = m) \<and>
    (knownTable m g t \<longrightarrow>
       tableAssigned m g t (\<lambda>x. x\<lparr>water := b\<rparr>) (snd (setTableWatering m g t b)))) \<and>
   ((fst (setTableFertilizer m g t b) \<longleftrightarrow> knownTable m g t) \<and>
    (\<not> knownTable m g t \<longrightarrow> snd (setTableFertilizer m g t b) = m) \<and>
    (knownTable m g t \<longrightarrow>
       tableAssigned m g t (\<lambda>x. x\<lparr>fertilizer := b\<rparr>) (snd (setTableFertilizer m g t b)))) \<and>
   ((fst (setGreenhouseFan m g b) \<longleftrightarrow> greenhouses m g \<noteq> None) \<and>
    (greenhouses m g = None \<longrightarrow> snd (setGreenhouseFan m g b) = m) \<and>
    (\<forall>greenhouse. greenhouses m g = Some greenhouse \<longrightarrow>
       snd (setGreenhouseFan m g b) =
         m\<lparr>greenhouses := (greenhouses m)(g \<mapsto> greenhouse\<lparr>fan := b\<rparr>)\<rparr>)) \<and>
   ((fst (setGreenhouseShading m g p) \<longleftrightarrow> greenhouses m g \<noteq> None \<and> 0 \<le> p \<and> p \<le> 100) \<and>
    (\<not> (greenhouses m g \<noteq> None \<and> 0 \<le> p \<and> p \<le> 100) \<longrightarrow>
       snd (setGreenhouseShading m g p) = m) \<and>
    (\<forall>greenhouse. greenhouses m g = Some greenhouse \<and> 0 \<le> p \<and> p \<le> 100 \<longrightarrow>
       snd (setGreenhouseShading m g p) =
         m\<lparr>greenhouses := (greenhouses m)(g \<mapsto> greenhouse\<lparr>shading := p\<rparr>)\<rparr>)) \<and>
   ((fst (setTableLight m g t l) \<longleftrightarrow> knownTable m g t \<and> 0 \<le> l \<and> l \<le> 2000) \<and>
    (\<not> (knownTable m g t \<and> 0 \<le> l \<and> l \<le> 2000) \<longrightarrow> snd (setTableLight m g t l) = m) \<and>
    (knownTable m g t \<and> 0 \<le> l \<and> l \<le> 2000 \<longrightarrow>
       tableAssigned m g t (\<lambda>x. x\<lparr>artLight := l\<rparr>) (snd (setTableLight m g t l))))"
  by (intro conjI setTableWatering_spec setTableFertilizer_spec setGreenhouseFan_spec
      setGreenhouseShading_spec setTableLight_spec)

theorem actuator_setters_witness:
  "knownTable startedManager 1 2 \<and> \<not> knownTable startedManager 1 9 \<and>
   \<not> knownTable startedManager 5 1 \<and>
   fst (setTableWatering startedManager 1 2 True) \<and>
   tableAssigned startedManager 1 2 (\<lambda>x. x\<lparr>water := True\<rparr>)
     (snd (setTableWatering startedManager 1 2 True)) \<and>
   snd (setTableWatering startedManager 1 9 True) = startedManager \<and>
   snd (setTableFertilizer startedManager 5 1 True) = startedManager \<and>
   fst (setGreenhouseFan startedManager 1 True) \<and>
   snd (setGreenhouseFan startedManager 5 True) = startedManager \<and>
   fst (setGreenhouseShading startedManager 1 40) \<and>
   snd (setGreenhouseShading startedManager 1 101) = startedManager \<and>
   fst (setTableLight startedManager 1 2 2000) \<and>
   tableAssigned startedManager 1 2 (\<lambda>x. x\<lparr>artLight := 2000\<rparr>)
     (snd (setTableLight startedManager 1 2 2000)) \<and>
   snd (setTableLight startedManager 1 2 2001) = startedManager \<and>
   snd (setTableLight startedManager 1 9 100) = startedManager"
proof -
  have known: "knownTable startedManager 1 2" "\<not> knownTable startedManager 1 9"
    "\<not> knownTable startedManager 5 1"
    by (simp_all add: knownTable_def startedManager_def seedTable_def seedHouse_def)
  have houses: "greenhouses startedManager 1 \<noteq> None" "greenhouses startedManager 5 = None"
    by (simp_all add: startedManager_def)
  show ?thesis
    using known houses
      actuator_setters [of startedManager 1 2 True 40 2000]
      actuator_setters [of startedManager 1 9 True 101 100]
      actuator_setters [of startedManager 5 1 True 40 2001]
      actuator_setters [of startedManager 1 2 True 101 2001]
    by simp
qed

text \<open>
  C8. A live table with a fresh over-fertilization counter runs ten ticks in a greenhouse
  that never exceeds 60 degrees; between ticks its fields other than id, population and
  size may be set from outside. As long as every tick so far started with fertility above
  100, the counter equals the number of ticks and the table is alive (before the tenth
  tick). If all ten ticks start with fertility above 100, the tenth tick sets population
  and size to 0 and clears the counter. If some tick among the ten starts with fertility
  at most 100, that tick clears the counter and the table is alive after the tenth tick.
\<close>

theorem over_fertilization_ten_ticks:
  assumes "0 < plantCount t" and "0 < plantSize t"
    and "overFertilizerTime s (gid, table_id t) = None"
    and "length ticks = 10"
    and "\<forall>x\<in>set ticks. keepsPlants (fst x) \<and> house_id (snd x) = gid \<and>
           house_temperature (snd x) \<le> 60"
  shows "(\<forall>k<10. (\<forall>i<k. 100 < soilFertility (tableBefore s t ticks i)) \<longrightarrow>
            overFertilizedMinutes (fst (stateAfter s t ticks k)) (gid, table_id t) = int k \<and>
            0 < plantCount (snd (stateAfter s t ticks k)) \<and>
            0 < plantSize (snd (stateAfter s t ticks k))) \<and>
         ((\<forall>i<10. 100 < soilFertility (tableBefore s t ticks i)) \<longrightarrow>
            plantCount (snd (stateAfter s t ticks 10)) = 0 \<and>
            plantSize (snd (stateAfter s t ticks 10)) = 0 \<and>
            overFertilizerTime (fst (stateAfter s t ticks 10)) (gid, table_id t) = None) \<and>
         (\<forall>j<10. soilFertility (tableBefore s t ticks j) \<le> 100 \<longrightarrow>
            overFertilizerTime (fst (stateAfter s t ticks (Suc j))) (gid, table_id t) = None \<and>
            0 < plantCount (snd (stateAfter s t ticks 10)) \<and>
            0 < plantSize (snd (stateAfter s t ticks 10)))"
proof (intro conjI allI impI)
  fix k :: nat
  assume k: "k < 10" and over: "\<forall>i<k. 100 < soilFertility (tableBefore s t ticks i)"
  from k have k9: "k \<le> 9" by simp
  from over_fertilization_invariant [OF assms k9] over
  show "overFertilizedMinutes (fst (stateAfter s t ticks k)) (gid, table_id t) = int k"
    by simp
  from alive_after [OF assms k]
  show "0 < plantCount (snd (stateAfter s t ticks k))"
    and "0 < plantSize (snd (stateAfter s t ticks k))"
    by simp_all
next
  assume over: "\<forall>i<10. 100 < soilFertility (tableBefore s t ticks i)"
  from tenth_tick(1) [OF assms over]
  show "plantCount (snd (stateAfter s t ticks 10)) = 0"
    and "plantSize (snd (stateAfter s t ticks 10)) = 0"
    and "overFertilizerTime (fst (stateAfter s t ticks 10)) (gid, table_id t) = None"
    by simp_all
next
  fix j :: nat
  assume j: "j < 10" and low: "soilFertility (tableBefore s t ticks j) \<le> 100"
  from drop_clears_counter [OF assms j low]
  show "overFertilizerTime (fst (stateAfter s t ticks (Suc j))) (gid, table_id t) = None" .
  from j low have "\<not> (\<forall>i<10. 100 < soilFertility (tableBefore s t ticks i))"
    by (auto simp add: not_less)
  from tenth_tick(2) [OF assms this]
  show "0 < plantCount (snd (stateAfter s t ticks 10))"
    and "0 < plantSize (snd (stateAfter s t ticks 10))"
    by simp_all
qed

theorem over_fertilization_ten_ticks_witness:
  "overFertilizedMinutes (fst (stateAfter freshSimulator seedTable heldAt110 9)) (1, 1) = 9 \<and>
   0 < plantCount (snd (stateAfter freshSimulator seedTable heldAt110 9)) \<and>
   plantCount (snd (stateAfter freshSimulator seedTable heldAt110 10)) = 0 \<and>
   plantSize (snd (stateAfter freshSimulator seedTable heldAt110 10)) = 0 \<and>
   overFertilizerTime (fst (stateAfter freshSimulator seedTable heldAt110 10)) (1, 1) = None \<and>
   soilFertility (tableBefore freshSimulator seedTable dropAtTick5 4) = 90 \<and>
   overFertilizerTime (fst (stateAfter freshSimulator seedTable dropAtTick5 5)) (1, 1) = None \<and>
   0 < plantCount (snd (stateAfter freshSimulator seedTable dropAtTick5 10)) \<and>
   0 < plantSize (snd (stateAfter freshSimulator seedTable dropAtTick5 10))"
proof -
  have live: "0 < plantCount seedTable" "0 < plantSize seedTable"
    "overFertilizerTime freshSimulator (1, table_id seedTable) = None"
    by (simp_all add: seedTable_def freshSimulator_def)
  have hold: "keepsPlants (fst (holdFertility f)) \<and> house_id (snd (holdFertility f)) = 1 \<and>
      house_temperature (snd (holdFertility f)) \<le> 60" for f
    by (simp add: holdFertility_def keepsPlants_def seedHouse_def)
  have held: "length heldAt110 = 10"
    "\<forall>x\<in>set heldAt110. keepsPlants (fst x) \<and> house_id (snd x) = 1 \<and>
       house_temperature (snd x) \<le> 60"
    using hold by (simp_all add: heldAt110_def)
  have over: "100 < soilFertility (tableBefore freshSimulator seedTable heldAt110 i)"
    if "i < 10" for i
    using that by (simp add: tableBefore_def heldAt110_def holdFertility_def)
  have dropped: "length dropAtTick5 = 10"
    "\<forall>x\<in>set dropAtTick5. keepsPlants (fst x) \<and> house_id (snd x) = 1 \<and>
       house_temperature (snd x) \<le> 60"
    using hold by (auto simp add: dropAtTick5_def)
  have low: "soilFertility (tableBefore freshSimulator seedTable dropAtTick5 4) = 90"
    by (simp add: tableBefore_def dropAtTick5_def holdFertility_def nth_append)
  have tid: "table_id seedTable = 1" by (simp add: seedTable_def)
  note held_run = over_fertilization_ten_ticks [OF live held, unfolded tid]
  note drop_run = over_fertilization_ten_ticks [OF live dropped, unfolded tid]
  have nine: "(9::nat) < 10" and four: "(4::nat) < 10" by simp_all
  have over9: "\<forall>i<9. 100 < soilFertility (tableBefore freshSimulator seedTable heldAt110 i)"
    and over10: "\<forall>i<10. 100 < soilFertility (tableBefore freshSimulator seedTable heldAt110 i)"
    using over by simp_all
  have low': "soilFertility (tableBefore freshSimulator seedTable dropAtTick5 4) \<le> 100"
    using low by simp
  from held_run [THEN conjunct1, rule_format, OF nine over9 [rule_format]]
  have "overFertilizedMinutes (fst (stateAfter freshSimulator seedTable heldAt110 9)) (1, 1) = 9 \<and>
      0 < plantCount (snd (stateAfter freshSimulator seedTable heldAt110 9))"
    by simp
  moreover from held_run [THEN conjunct2, THEN conjunct1, rule_format, OF over10 [rule_format]]
  have "plantCount (snd (stateAfter freshSimulator seedTable heldAt110 10)) = 0 \<and>
      plantSize (snd (stateAfter freshSimulator seedTable heldAt110 10)) = 0 \<and>
      overFertilizerTime (fst (stateAfter freshSimulator seedTable heldAt110 10)) (1, 1) = None" .
  moreover from drop_run [THEN conjunct2, THEN conjunct2, rule_format, OF four low']
  have "overFertilizerTime (fst (stateAfter freshSimulator seedTable dropAtTick5 5)) (1, 1) = None \<and>
      0 < plantCount (snd (stateAfter freshSimulator seedTable dropAtTick5 10)) \<and>
      0 < plantSize (snd (stateAfter freshSimulator seedTable dropAtTick5 10))"
    by simp
  ultimately show ?thesis using low by simp
qed

end
